theory Spec2Isabelle
  imports Main
begin

section \<open>Values of the program\<close>

text \<open>
  The exceptions \<^verbatim>\<open>driverpackage.py\<close> raises or lets through. \<open>Exception\<close> carries the
  message of a \<^verbatim>\<open>raise Exception(...)\<close>; \<open>NameError\<close> the name that is bound nowhere;
  the others are the interpreter's and the operating system's own. Messages are the
  source's, without their quotation marks and interpolated exception texts.
\<close>

datatype error =
    Exception string
  | NameError string
  | TypeError string
  | KeyError string
  | FileNotFoundError string
  | FileExistsError string
  | NotADirectoryError string
  | IsADirectoryError string
  | ParseError string
  | AttributeError string
  | IndexError
  | OSError string
  | UnicodeDecodeError string

text \<open>
  An lxml element: tag, attribute dictionary (document order, keys unique), text
  (\<open>None\<close> when the element has none) and children.
\<close>

datatype element =
  Element (tag: string) (attrib: "(string \<times> string) list") (text_of: "string option")
    (children: "element list")

text \<open>\<^verbatim>\<open>element.attrib.get(key)\<close>: the value, or \<open>None\<close>.\<close>

definition attrib_get :: "element \<Rightarrow> string \<Rightarrow> string option" where
  "attrib_get e k = map_of (attrib e) k"

text \<open>\<^verbatim>\<open>element.find(tag)\<close> and \<^verbatim>\<open>element.findall(tag)\<close> on direct children.\<close>

definition find_child :: "element \<Rightarrow> string \<Rightarrow> element option" where
  "find_child e t = List.find (\<lambda>c. tag c = t) (children e)"

definition findall :: "element \<Rightarrow> string \<Rightarrow> element list" where
  "findall e t = filter (\<lambda>c. tag c = t) (children e)"

text \<open>\<^verbatim>\<open>str.lower()\<close> on ASCII letters.\<close>

definition lower_char :: "char \<Rightarrow> char" where
  "lower_char c =
     (let n = (of_char c :: nat) in if 65 \<le> n \<and> n \<le> 90 then char_of (n + 32) else c)"

definition lower :: "string \<Rightarrow> string" where
  "lower s = map lower_char s"

text \<open>
  The three boolean attributes of the manifest, as lines 254-255, 340-341 and 355-356
  read them: \<^verbatim>\<open>True if e.attrib.get(k) == 'true' else False\<close>, the last two comparing
  with \<^verbatim>\<open>str('true').lower()\<close>.
\<close>

definition squish_lua_of :: "element \<Rightarrow> bool" where
  "squish_lua_of xml_root_element =
     (if attrib_get xml_root_element ''squishLua'' = Some ''true'' then True else False)"

definition item_excluded :: "element \<Rightarrow> bool" where
  "item_excluded item_xml_element =
     (if attrib_get item_xml_element ''exclude'' = Some (lower ''true'') then True else False)"

definition recurse_of :: "element \<Rightarrow> bool" where
  "recurse_of item_xml_element =
     (if attrib_get item_xml_element ''recurse'' = Some (lower ''true'') then True else False)"

section \<open>The process and its file system\<close>

text \<open>
  What the program reads and changes outside its own variables: the working directory,
  the environment, the file system, standard output, and the two module globals of
  \<^verbatim>\<open>build_c4z\<close> that \<^verbatim>\<open>setSquishLua\<close> and \<^verbatim>\<open>setC4i\<close> store (line 198 reads the first
  as \<^verbatim>\<open>c4z.squishLua_\<close>; the fields are \<open>c4z_squishLua\<close> and \<open>c4z_c4i\<close>). The file system maps a resolved path, the list of its
  components from the root, to what is there; \<open>decodes\<close> tells which file contents the
  locale's encoding can decode. The model fixes the POSIX conventions
  (\<^verbatim>\<open>os.path.sep\<close> is \<open>/\<close>, \<^verbatim>\<open>os.pathsep\<close> is \<open>:\<close>) and has no symbolic links.
\<close>

datatype node = Dir | File string

record world =
  cwd :: string
  environ :: "string \<rightharpoonup> string"
  fs :: "string list \<rightharpoonup> node"
  stdout :: "string list"
  c4z_squishLua :: bool
  c4z_c4i :: bool
  decodes :: "string \<Rightarrow> bool"

text \<open>\<^verbatim>\<open>print(line)\<close>.\<close>

definition print :: "world \<Rightarrow> string \<Rightarrow> world" where
  "print w line = w\<lparr>stdout := stdout w @ [line]\<rparr>"

text \<open>\<^verbatim>\<open>str.split(sep)\<close> for a one-character separator.\<close>

fun split_on :: "char \<Rightarrow> string \<Rightarrow> string list" where
  "split_on c [] = [[]]"
| "split_on c (x # xs) =
     (if x = c then [] # split_on c xs
      else (case split_on c xs of [] \<Rightarrow> [[x]] | y # ys \<Rightarrow> (x # y) # ys))"

definition components :: "string \<Rightarrow> string list" where
  "components p = filter (\<lambda>s. s \<noteq> [] \<and> s \<noteq> ''.'') (split_on CHR ''/'' p)"

text \<open>
  The path a directory is to be created at, taken by its spelling: the empty path names
  nothing, an absolute path starts at the root and any other path at the working
  directory; empty components and \<open>.\<close> are dropped and \<open>..\<close> is kept as a name, so that
  \<open>resolve\<close>, \<open>lookup\<close>, \<open>isdir\<close> and \<open>makedirs\<close> below are those of the operating system
  on paths without \<open>..\<close>.
\<close>

definition resolve :: "world \<Rightarrow> string \<Rightarrow> string list option" where
  "resolve w p =
     (if p = [] then None
      else if hd p = CHR ''/'' then Some (components p)
      else Some (components (cwd w) @ components p))"

definition lookup :: "world \<Rightarrow> string \<Rightarrow> node option" where
  "lookup w p = (case resolve w p of None \<Rightarrow> None | Some q \<Rightarrow> fs w q)"


text \<open>
  The walk the operating system makes along a path: each component is taken in a
  directory that exists; an empty component and \<open>.\<close> stay in it, \<open>..\<close> goes to its parent
  (the root being its own) and a name goes below it. What the last name leads to need
  not exist. So a file followed by \<open>/\<close> or \<open>/.\<close> leads nowhere, and \<open>www/../x\<close> leads to
  \<open>x\<close> when \<open>www\<close> is a directory.
\<close>

fun walk :: "(string list \<rightharpoonup> node) \<Rightarrow> string list \<Rightarrow> string list \<Rightarrow> string list option" where
  "walk f cur [] = Some cur"
| "walk f cur (c # cs) =
     (if f cur \<noteq> Some Dir then None
      else if c = [] \<or> c = ''.'' then walk f cur cs
      else if c = ''..'' then walk f (butlast cur) cs
      else walk f (cur @ [c]) cs)"

definition realpath :: "world \<Rightarrow> string \<Rightarrow> string list option" where
  "realpath w p =
     (if p = [] then None
      else walk (fs w) (if hd p = CHR ''/'' then [] else components (cwd w))
             (split_on CHR ''/'' p))"

definition stat :: "world \<Rightarrow> string \<Rightarrow> node option" where
  "stat w p = (case realpath w p of None \<Rightarrow> None | Some q \<Rightarrow> fs w q)"

text \<open>\<^verbatim>\<open>os.path.exists\<close>.\<close>

definition exists :: "world \<Rightarrow> string \<Rightarrow> bool" where
  "exists w p = (stat w p \<noteq> None)"

text \<open>The absolute path string of a resolved path, as \<^verbatim>\<open>os.getcwd()\<close> returns it.\<close>

definition abs_string :: "string list \<Rightarrow> string" where
  "abs_string q = (if q = [] then ''/'' else concat (map (\<lambda>c. CHR ''/'' # c) q))"

text \<open>\<^verbatim>\<open>os.chdir(path)\<close>.\<close>

definition chdir :: "world \<Rightarrow> string \<Rightarrow> error + world" where
  "chdir w p =
     (case realpath w p of
        None \<Rightarrow> Inl (FileNotFoundError p)
      | Some q \<Rightarrow>
          (case fs w q of
             None \<Rightarrow> Inl (FileNotFoundError p)
           | Some (File _) \<Rightarrow> Inl (NotADirectoryError p)
           | Some Dir \<Rightarrow> Inr (w\<lparr>cwd := abs_string q\<rparr>)))"

text \<open>Opening a file for reading and taking its whole contents.\<close>

definition read_file :: "world \<Rightarrow> string \<Rightarrow> error + string" where
  "read_file w p =
     (case stat w p of
        None \<Rightarrow> Inl (FileNotFoundError p)
      | Some Dir \<Rightarrow> Inl (IsADirectoryError p)
      | Some (File s) \<Rightarrow> Inr s)"

text \<open>
  Opening a file for writing (\<open>appending = False\<close> truncates, \<open>True\<close> appends) and writing
  \<open>s\<close>: the walk must reach the path, which must not be a directory.
\<close>

definition write_file :: "bool \<Rightarrow> world \<Rightarrow> string \<Rightarrow> string \<Rightarrow> error + world" where
  "write_file appending w p s =
     (case realpath w p of
        None \<Rightarrow> Inl (FileNotFoundError p)
      | Some q \<Rightarrow>
          (case fs w q of
             Some Dir \<Rightarrow> Inl (IsADirectoryError p)
           | Some (File old) \<Rightarrow>
               Inr (w\<lparr>fs := (fs w)(q \<mapsto> File (if appending then old @ s else s))\<rparr>)
           | None \<Rightarrow>
               if q = [] then Inl (FileNotFoundError p)
               else Inr (w\<lparr>fs := (fs w)(q \<mapsto> File s)\<rparr>)))"

text \<open>\<^verbatim>\<open>shutil.copyfile(src, dst)\<close> (and \<^verbatim>\<open>shutil.copy\<close> with a file destination).\<close>

definition copyfile :: "world \<Rightarrow> string \<Rightarrow> string \<Rightarrow> error + world" where
  "copyfile w src dst =
     (case read_file w src of
        Inl e \<Rightarrow> Inl e
      | Inr s \<Rightarrow> write_file False w dst s)"

text \<open>\<^verbatim>\<open>os.remove(path)\<close>.\<close>

definition remove :: "world \<Rightarrow> string \<Rightarrow> error + world" where
  "remove w p =
     (case realpath w p of
        None \<Rightarrow> Inl (FileNotFoundError p)
      | Some q \<Rightarrow>
          (case fs w q of
             None \<Rightarrow> Inl (FileNotFoundError p)
           | Some Dir \<Rightarrow> Inl (IsADirectoryError p)
           | Some (File _) \<Rightarrow> Inr (w\<lparr>fs := (fs w)(q := None)\<rparr>)))"






text \<open>\<^verbatim>\<open>os.path.join(a, b)\<close> (posixpath).\<close>

definition join :: "string \<Rightarrow> string \<Rightarrow> string" where
  "join a b =
     (if b \<noteq> [] \<and> hd b = CHR ''/'' then b
      else if a = [] \<or> last a = CHR ''/'' then a @ b
      else a @ ''/'' @ b)"


text \<open>
  \<^verbatim>\<open>os.path.splitext(p)\<close> (posixpath, \<^verbatim>\<open>genericpath._splitext\<close>): the extension starts at
  the last dot of the last component, unless only dots precede it there.
\<close>

fun rfind_from :: "char \<Rightarrow> string \<Rightarrow> int \<Rightarrow> int \<Rightarrow> int" where
  "rfind_from c [] i r = r"
| "rfind_from c (x # xs) i r = rfind_from c xs (i + 1) (if x = c then i else r)"

definition rfind :: "string \<Rightarrow> char \<Rightarrow> int" where
  "rfind p c = rfind_from c p 0 (- 1)"

definition splitext :: "string \<Rightarrow> string \<times> string" where
  "splitext p =
     (let sepIndex = rfind p CHR ''/'';
          dotIndex = rfind p CHR ''.''
      in if dotIndex > sepIndex
            \<and> list_ex (\<lambda>c. c \<noteq> CHR ''.'')
                 (take (nat (dotIndex - (sepIndex + 1))) (drop (nat (sepIndex + 1)) p))
         then (take (nat dotIndex) p, drop (nat dotIndex) p)
         else (p, []))"

text \<open>\<^verbatim>\<open>os.path.basename(p)\<close>: what follows the last separator.\<close>

definition basename :: "string \<Rightarrow> string" where
  "basename p = drop (nat (rfind p CHR ''/'' + 1)) p"

text \<open>
  Reading in text mode: \<open>CR LF\<close> and a lone \<open>CR\<close> become \<open>LF\<close>; then
  \<^verbatim>\<open>file.readlines()\<close>, the lines, each with its newline.
\<close>

fun universal_newlines :: "string \<Rightarrow> string" where
  "universal_newlines [] = []"
| "universal_newlines [c] = [if c = CHR 0x0D then CHR 0x0A else c]"
| "universal_newlines (c # d # ds) =
     (if c = CHR 0x0D then
        (if d = CHR 0x0A then CHR 0x0A # universal_newlines ds
         else CHR 0x0A # universal_newlines (d # ds))
      else c # universal_newlines (d # ds))"

fun readlines :: "string \<Rightarrow> string list" where
  "readlines [] = []"
| "readlines (c # cs) =
     (if c = CHR 0x0A then [c] # readlines cs
      else (case readlines cs of [] \<Rightarrow> [[c]] | l # ls \<Rightarrow> (c # l) # ls))"

text \<open>\<^verbatim>\<open>str(exception)\<close>, as the log prints it.\<close>

fun error_str :: "error \<Rightarrow> string" where
  "error_str (Exception m) = m"
| "error_str (NameError n) = ''name '' @ n @ '' is not defined''"
| "error_str (TypeError m) = m"
| "error_str (KeyError m) = m"
| "error_str (FileNotFoundError m) = ''No such file or directory: '' @ m"
| "error_str (FileExistsError m) = ''File exists: '' @ m"
| "error_str (NotADirectoryError m) = ''Not a directory: '' @ m"
| "error_str (IsADirectoryError m) = ''Is a directory: '' @ m"
| "error_str (ParseError m) = m"
| "error_str (AttributeError m) = m"
| "error_str IndexError = ''list index out of range''"
| "error_str (OSError m) = m"
| "error_str (UnicodeDecodeError m) = ''codec cannot decode '' @ m"

section \<open>What the program calls outside this file\<close>

text \<open>
  The result of \<^verbatim>\<open>subprocess.check_call\<close>: the tool could not be launched (\<^verbatim>\<open>OSError\<close>), or
  it ran and exited with a status.
\<close>

datatype call_outcome = LaunchFailure string | Exit int

text \<open>
  The library and tool behaviour the program depends on, as parameters: lxml's parser
  (\<open>None\<close> is a \<^verbatim>\<open>ParseError\<close>) and serialiser (the flag is \<^verbatim>\<open>pretty_print\<close>),
  \<^verbatim>\<open>os.system\<close> and \<^verbatim>\<open>subprocess.check_call\<close> (each may change the world),
  \<^verbatim>\<open>getattr(sys, 'frozen', False)\<close>, the directory of the executable and of this script,
  \<^verbatim>\<open>c4z.GetSquishyOutputFile\<close>, the formatted current time, and the \<^verbatim>\<open>code\<close> lxml gives a
  \<^verbatim>\<open>ParseError\<close>.
\<close>

record externals =
  etree_parse :: "string \<Rightarrow> element option"
  etree_tostring :: "bool \<Rightarrow> element \<Rightarrow> string"
  os_system :: "string \<Rightarrow> world \<Rightarrow> int \<times> world"
  check_call :: "string list \<Rightarrow> world \<Rightarrow> call_outcome \<times> world"
  sys_frozen :: bool
  executable_directory_path :: string
  current_file_directory_path :: string
  GetSquishyOutputFile :: "string \<Rightarrow> string option"
  timestamp :: string
  parse_error_code :: int

section \<open>The packager\<close>

text \<open>
  The fields of \<^verbatim>\<open>DriverPackager\<close>. \<open>bytes_io\<close> is the contents of the \<^verbatim>\<open>BytesIO\<close> buffer,
  or \<open>None\<close> once line 261 has replaced the buffer by \<^verbatim>\<open>None\<close>; \<open>driver_version\<close> is
  \<open>None\<close> for the value \<^verbatim>\<open>False\<close>.
\<close>

record packager =
  verbose :: bool
  source_directory_path :: string
  destination_directory_path :: string
  manifest_xml_filename :: "string option"
  bytes_io :: "string option"
  unzip :: bool
  allow_execute :: bool
  update_modified :: bool
  driver_version :: "string option"


text \<open>
  \<^verbatim>\<open>Log\<close> (lines 722-729): prints only when verbose. The line's timestamp prefix is
  left out of the model.
\<close>

definition Log :: "packager \<Rightarrow> world \<Rightarrow> string \<Rightarrow> world" where
  "Log self w line = (if verbose self then print w line else w)"


text \<open>
  A name that no assignment, parameter or import of the module binds: evaluating it
  raises \<^verbatim>\<open>NameError\<close>. \<open>oldPath\<close> is read at lines 108 and 117.
\<close>

definition oldPath :: "error + string" where
  "oldPath = Inl (NameError ''oldPath'')"

text \<open>
  \<^verbatim>\<open>Squish\<close> (lines 82-147). The result is the exception raised, if any, and the world the
  call leaves behind.
\<close>

definition Squish :: "externals \<Rightarrow> packager \<Rightarrow> string \<Rightarrow> world \<Rightarrow> error option \<times> world" where
  "Squish ext self root_directory_path w0 =
     (let w1 = Log self w0 ''Squishing Lua source...'' in
      case environ w1 ''PATH'' of
        None \<Rightarrow> (Some (KeyError ''PATH''), w1)
      | Some original_path_environment_variable_value \<Rightarrow>
          (let original_current_working_directory_path = cwd w1;
               w2 = print w1 (''Saved Directory: '' @ original_current_working_directory_path)
           in case chdir w2 root_directory_path of
                Inl e \<Rightarrow> (Some e, w2)
              | Inr w3 \<Rightarrow>
                  (let w4 = print w3 (''Current Directory: '' @ cwd w3);
                       directory_path =
                         (if sys_frozen ext then executable_directory_path ext
                          else current_file_directory_path ext);
                       squish_command_path = join directory_path ''squish''
                   in case oldPath of
                        Inl e \<Rightarrow> (Some e, w4)
                      | Inr old \<Rightarrow>
                          (let w5 = w4\<lparr>environ := (environ w4)
                                 (''PATH'' \<mapsto>
                                    directory_path @ (if sys_frozen ext then '';'' else '':'') @ old)\<rparr>;
                               lua_squish_command =
                                 [''luajit'', squish_command_path, ''--no-minify'']
                                 @ (if verbose self then [''--vv''] else [])
                                 @ [root_directory_path];
                               w6 = print (print (print w5 (''Root Directory: '' @ root_directory_path))
                                      ''CommandLine: '')
                                      (concat (map (\<lambda>a. a @ '' '') (butlast lua_squish_command))
                                         @ last lua_squish_command)
                           in case check_call ext lua_squish_command w6 of
                                (outcome, w7) \<Rightarrow>
                                  (let raised =
                                         (case outcome of
                                            LaunchFailure m \<Rightarrow>
                                              Some (Exception (''DriverPackager: Error squishing lua '' @ m))
                                          | Exit status \<Rightarrow>
                                              if status \<noteq> 0
                                              then Some (Exception
                                                     (''DriverPackager: Lua squish failed while processing ''
                                                        @ root_directory_path))
                                              else None);
                                       w8 = w7\<lparr>environ := (environ w7)
                                              (''PATH'' \<mapsto> original_path_environment_variable_value)\<rparr>
                                   in case chdir w8 original_current_working_directory_path of
                                        Inl e \<Rightarrow> (Some e, w8)
                                      | Inr w9 \<Rightarrow> (raised, w9))))))"


text \<open>
  \<^verbatim>\<open>CleanupTmpFile\<close> (lines 214-229): when execution was allowed and the temporary Lua
  file exists, it is copied back over \<^verbatim>\<open>driver.lua\<close> and removed; any exception is logged
  and swallowed.
\<close>

definition CleanupTmpFile :: "packager \<Rightarrow> string \<Rightarrow> world \<Rightarrow> world" where
  "CleanupTmpFile self root_directory_path w =
     (if allow_execute self then
        (let temporary_driver_lua_filepath = join root_directory_path ''driver.lua.tmp'';
             failed = Log self w ''Unable to remove driver.lua.tmp file or file does not exist''
         in if exists w temporary_driver_lua_filepath then
              (let final_driver_lua_filepath = join root_directory_path ''driver.lua'' in
               case copyfile w temporary_driver_lua_filepath final_driver_lua_filepath of
                 Inl e \<Rightarrow> failed
               | Inr w1 \<Rightarrow>
                   (case remove w1 temporary_driver_lua_filepath of
                      Inl e \<Rightarrow> Log self w1
                        ''Unable to remove driver.lua.tmp file or file does not exist''
                    | Inr w2 \<Rightarrow> w2))
            else w)
      else w)"

text \<open>
  \<^verbatim>\<open>etree.parse(path)\<close>: read the file, then parse its contents. A file that cannot be read
  is lxml's \<^verbatim>\<open>OSError\<close>, which carries no \<^verbatim>\<open>errno\<close>.
\<close>

definition parse_file :: "externals \<Rightarrow> world \<Rightarrow> string \<Rightarrow> error + element" where
  "parse_file ext w p =
     (case read_file w p of
        Inl e \<Rightarrow> Inl (OSError (''Error reading file '' @ p))
      | Inr s \<Rightarrow>
          (case etree_parse ext s of
             None \<Rightarrow> Inl (ParseError p)
           | Some root \<Rightarrow> Inr root))"

text \<open>Setting the text of the first child with a given tag (the element \<^verbatim>\<open>find\<close> returned).\<close>

fun set_first_text :: "string \<Rightarrow> string \<Rightarrow> element list \<Rightarrow> element list" where
  "set_first_text t v [] = []"
| "set_first_text t v (c # cs) =
     (if tag c = t then Element (tag c) (attrib c) (Some v) (children c) # cs
      else c # set_first_text t v cs)"

definition set_child_text :: "element \<Rightarrow> string \<Rightarrow> string \<Rightarrow> element" where
  "set_child_text e t v = Element (tag e) (attrib e) (text_of e) (set_first_text t v (children e))"

text \<open>
  Two more names bound nowhere: \<open>dateModified\<close> (line 614, where the element found is
  \<^verbatim>\<open>date_modified_xml_element\<close>) and \<open>driverVersion\<close> (line 633, where it is
  \<^verbatim>\<open>driver_version_xml_element\<close>).
\<close>

definition dateModified :: "error + element option" where
  "dateModified = Inl (NameError ''dateModified'')"

definition driverVersion :: "error + element" where
  "driverVersion = Inl (NameError ''driverVersion'')"

text \<open>The body of the \<^verbatim>\<open>try\<close> of \<^verbatim>\<open>UpdateDriverXml\<close> (lines 606-642).\<close>

definition UpdateDriverXml_try ::
  "externals \<Rightarrow> packager \<Rightarrow> string \<Rightarrow> world \<Rightarrow> (error + packager) \<times> world" where
  "UpdateDriverXml_try ext self driver_xml_filepath w =
     (case parse_file ext w driver_xml_filepath of
        Inl e \<Rightarrow> (Inl e, w)
      | Inr driver_xml_root_element \<Rightarrow>
          (case (if update_modified self then
                   (let date_modified_xml_element = find_child driver_xml_root_element ''modified'' in
                    case dateModified of
                      Inl e \<Rightarrow> (Inl e, w)
                    | Inr date_modified \<Rightarrow>
                        if date_modified \<noteq> None
                        then (Inl (Exception ''<modified> tag not found''), w)
                        else (case date_modified_xml_element of
                                None \<Rightarrow> (Inl (AttributeError ''text''), w)
                              | Some _ \<Rightarrow>
                                  (Inr (set_child_text driver_xml_root_element ''modified''
                                          (timestamp ext)),
                                   Log self w (''Build timestamp '' @ timestamp ext))))
                 else (Inr driver_xml_root_element, w))
           of (Inl e, w1) \<Rightarrow> (Inl e, w1)
            | (Inr root1, w1) \<Rightarrow>
                (case (case driver_version self of
                         None \<Rightarrow> Inr root1
                       | Some version \<Rightarrow>
                           if version = [] then Inr root1
                           else (case find_child root1 ''version'' of
                                   None \<Rightarrow> Inl (Exception ''<version> tag not found'')
                                 | Some driver_version_xml_element \<Rightarrow>
                                     (case driverVersion of
                                        Inl e \<Rightarrow> Inl e
                                      | Inr dv \<Rightarrow>
                                          (case text_of dv of
                                             None \<Rightarrow> Inl (Exception ''empty <version> tag'')
                                           | Some old_version \<Rightarrow>
                                               Inr (set_child_text root1 ''version'' version)))))
                 of Inl e \<Rightarrow> (Inl e, w1)
                  | Inr root2 \<Rightarrow>
                      (case bytes_io self of
                         None \<Rightarrow> (Inl (AttributeError ''write''), w1)
                       | Some buffer \<Rightarrow>
                           (Inr (self\<lparr>bytes_io := Some (buffer @ etree_tostring ext False root2)\<rparr>),
                            w1)))))"

text \<open>
  \<^verbatim>\<open>UpdateDriverXml\<close> (lines 604-645): every exception of the body is logged and replaced
  by \<^verbatim>\<open>Exception("Unable to update driver.xml")\<close>.
\<close>

definition UpdateDriverXml ::
  "externals \<Rightarrow> packager \<Rightarrow> string \<Rightarrow> world \<Rightarrow> (error + packager) \<times> world" where
  "UpdateDriverXml ext self driver_xml_filepath w =
     (case UpdateDriverXml_try ext self driver_xml_filepath w of
        (Inl e, w1) \<Rightarrow> (Inl (Exception ''Unable to update driver.xml''), Log self w1 (error_str e))
      | (Inr self1, w1) \<Rightarrow> (Inr self1, w1))"

text \<open>\<^verbatim>\<open>str.replace(old, new)\<close> for one-character strings.\<close>

definition replace_char :: "char \<Rightarrow> char \<Rightarrow> string \<Rightarrow> string" where
  "replace_char old new s = map (\<lambda>c. if c = old then new else c) s"

text \<open>\<^verbatim>\<open>print(element.tag, element.text)\<close>.\<close>

definition print_tag_text :: "world \<Rightarrow> element \<Rightarrow> world" where
  "print_tag_text w e =
     print w (tag e @ '' '' @ (case text_of e of None \<Rightarrow> ''None'' | Some t \<Rightarrow> t))"

text \<open>
  The loop over the children of \<^verbatim>\<open>PrepackageCommands\<close> (lines 272-288). The result is the
  exception raised, if any.
\<close>

fun prepackage_commands ::
  "externals \<Rightarrow> packager \<Rightarrow> element list \<Rightarrow> world \<Rightarrow> error option \<times> world" where
  "prepackage_commands ext self [] w = (None, w)"
| "prepackage_commands ext self (prepackage_command_xml_element # rest) w =
     (let w1 = print_tag_text w prepackage_command_xml_element in
      if tag prepackage_command_xml_element \<noteq> ''PrepackageCommand'' then
        prepackage_commands ext self rest
          (Log self w1 (''Invalid XML: Found tag '' @ tag prepackage_command_xml_element
                          @ '', should be PrepackageCommand''))
      else
        (case text_of prepackage_command_xml_element of
           None \<Rightarrow> (Some (AttributeError ''replace''), w1)
         | Some command_text \<Rightarrow>
             (let prepackage_command =
                    replace_char CHR ''/'' CHR ''/'' (replace_char CHR 0x5C CHR ''/'' command_text)
              in case os_system ext prepackage_command w1 of
                   (prepackage_command_return_code, w2) \<Rightarrow>
                     if prepackage_command_return_code = 0
                     then (Some (Exception ''Failed to execute prepackage command.''), w2)
                     else prepackage_commands ext self rest w2)))"

text \<open>The loop over the children of \<^verbatim>\<open>PostpackageCommands\<close> (lines 583-599).\<close>

fun postpackage_commands ::
  "externals \<Rightarrow> packager \<Rightarrow> element list \<Rightarrow> world \<Rightarrow> error option \<times> world" where
  "postpackage_commands ext self [] w = (None, w)"
| "postpackage_commands ext self (postpackage_command_xml_element # rest) w =
     (let w1 = print_tag_text w postpackage_command_xml_element in
      if tag postpackage_command_xml_element = ''PostpackageCommand'' then
        postpackage_commands ext self rest
          (Log self w1 (''Invalid XML: Found tag '' @ tag postpackage_command_xml_element
                          @ '', should be PostpackageCommand''))
      else
        (case text_of postpackage_command_xml_element of
           None \<Rightarrow> (Some (AttributeError ''replace''), w1)
         | Some command_text \<Rightarrow>
             (let postpackage_command =
                    replace_char CHR ''/'' CHR ''/'' (replace_char CHR 0x5C CHR ''/'' command_text)
              in case os_system ext postpackage_command w1 of
                   (postpackage_command_return_code, w2) \<Rightarrow>
                     postpackage_commands ext self rest
                       (if postpackage_command_return_code = 0
                        then print w2 ''Failed to execute postpackage command.''
                        else w2))))"


section \<open>Resolving the manifest\<close>

text \<open>\<^verbatim>\<open>root.findall('./a/b')\<close>: the children tagged \<open>b\<close> of the children tagged \<open>a\<close>.\<close>

definition findall_path :: "element \<Rightarrow> string \<Rightarrow> string \<Rightarrow> element list" where
  "findall_path root a b = concat (map (\<lambda>c. findall c b) (findall root a))"

text \<open>
  \<^verbatim>\<open>GetEncryptFilename\<close> (lines 184-209): the file of the last script element with
  \<^verbatim>\<open>encryption="2"\<close>, or the squish output file when squishing is on; \<open>None\<close> when no
  script element qualifies or the attribute is absent.
\<close>

definition GetEncryptFilename ::
  "externals \<Rightarrow> packager \<Rightarrow> world \<Rightarrow> string \<Rightarrow> error + string option" where
  "GetEncryptFilename ext self w driver_xml_filepath =
     (case read_file w driver_xml_filepath of
        Inl e \<Rightarrow> Inl (OSError (''Error reading file '' @ driver_xml_filepath))
      | Inr s \<Rightarrow>
          (case etree_parse ext s of
             None \<Rightarrow> Inl (Exception (''DriverPackager: Invalid XML ('' @ driver_xml_filepath @ '')''))
           | Some driver_xml_root_element \<Rightarrow>
               Inr (foldl (\<lambda>c4z_script_file script_element.
                             if attrib_get script_element ''encryption'' = Some ''2''
                             then (if c4z_squishLua w
                                   then GetSquishyOutputFile ext (source_directory_path self)
                                   else attrib_get script_element ''file'')
                             else c4z_script_file)
                      None (findall_path driver_xml_root_element ''config'' ''script''))))"

text \<open>
  Lines 368-372: with a script file name that Python counts as true (not \<^verbatim>\<open>None\<close>, not
  empty), an item name whose extension is \<^verbatim>\<open>.encrypted\<close> loses it.
\<close>

definition file_item_name :: "string option \<Rightarrow> string \<Rightarrow> string" where
  "file_item_name c4zScriptFile item_name =
     (if c4zScriptFile \<noteq> None \<and> c4zScriptFile \<noteq> Some [] then
        (case splitext item_name of
           (filename_without_last_extension, file_extension) \<Rightarrow>
             if file_extension = ''.encrypted'' then filename_without_last_extension
             else item_name)
      else item_name)"

text \<open>
  Lines 422-431: the first \<^verbatim>\<open>codecs.open\<close> is guarded, its failure logged; the \<^verbatim>\<open>finally\<close>
  block opens the file again, unguarded, and reads its lines in text mode, which fails
  on contents that the encoding cannot decode.
\<close>

definition read_textfile ::
  "packager \<Rightarrow> world \<Rightarrow> string \<Rightarrow> string \<Rightarrow> (error + string list) \<times> world" where
  "read_textfile self w root_directory_path textfile =
     (let textfile_path = join root_directory_path textfile;
          w1 = (case read_file w textfile_path of
                  Inl ex \<Rightarrow>
                    Log self w (''Unable to find the file '' @ [CHR 0x27] @ textfile @ [CHR 0x27]
                      @ '' referenced in the textfile attribute of the <documentation> element in your driver.xml'')
                | Inr _ \<Rightarrow> w)
      in case read_file w1 textfile_path of
           Inl e \<Rightarrow> (Inl e, w1)
         | Inr textfile_contents \<Rightarrow>
             if decodes w1 textfile_contents
             then (Inr (readlines (universal_newlines textfile_contents)), w1)
             else (Inl (UnicodeDecodeError textfile_path), w1))"

text \<open>
  Lines 440-448 on the children of the root: the first \<^verbatim>\<open>config\<close> element loses its
  \<^verbatim>\<open>documentation\<close> children and gains a new last child.
\<close>

fun replace_documentation :: "element \<Rightarrow> element list \<Rightarrow> element list" where
  "replace_documentation d [] = []"
| "replace_documentation d (c # cs) =
     (if tag c = ''config''
      then Element (tag c) (attrib c) (text_of c)
             (filter (\<lambda>x. tag x \<noteq> ''documentation'') (children c) @ [d]) # cs
      else c # replace_documentation d cs)"

text \<open>
  Lines 391-462: the documentation of the driver descriptor. Line 413 assigns the \<^verbatim>\<open>file\<close>
  attribute to \<^verbatim>\<open>docFile\<close>, so \<^verbatim>\<open>documentation_file\<close> keeps the \<^verbatim>\<open>None\<close> of
  line 410.
\<close>

definition inject_documentation ::
  "externals \<Rightarrow> packager \<Rightarrow> string \<Rightarrow> string \<Rightarrow> string \<Rightarrow> world \<Rightarrow> error option \<times> world" where
  "inject_documentation ext self root_directory_path driver_type item_filepath w =
     (case parse_file ext w item_filepath of
        Inl e \<Rightarrow> (Some e, w)
      | Inr driver_xml_root_element \<Rightarrow>
          (case findall_path driver_xml_root_element ''config'' ''documentation'' of
             [] \<Rightarrow> (None, w)
           | first_documentation_xml_element # _ \<Rightarrow>
               (case attrib_get first_documentation_xml_element ''textfile'' of
                  None \<Rightarrow> (None, w)
                | Some textfile \<Rightarrow>
                    (let documentation_file = (None :: string option) in
                     case copyfile w item_filepath (item_filepath @ ''.bak'') of
                       Inl e \<Rightarrow> (Some e, w)
                     | Inr w1 \<Rightarrow>
                         (case read_textfile self w1 root_directory_path textfile of
                            (Inl e, w2) \<Rightarrow> (Some e, w2)
                          | (Inr textfile_lines, w2) \<Rightarrow>
                              (case parse_file ext w2 item_filepath of
                                 Inl e \<Rightarrow> (Some e, w2)
                               | Inr xml_root_driver \<Rightarrow>
                                   (case find_child xml_root_driver ''config'' of
                                      None \<Rightarrow> (Some (AttributeError ''findall''), w2)
                                    | Some config \<Rightarrow>
                                        (let new_documentation_xml_element =
                                               Element ''documentation''
                                                 (case documentation_file of
                                                    None \<Rightarrow> []
                                                  | Some f \<Rightarrow>
                                                      if driver_type = ''c4z'' then [(''file'', f)]
                                                      else [])
                                                 (Some (concat textfile_lines)) [];
                                             new_root =
                                               Element (tag xml_root_driver) (attrib xml_root_driver)
                                                 (text_of xml_root_driver)
                                                 (replace_documentation new_documentation_xml_element
                                                    (children xml_root_driver))
                                         in case write_file False w2 item_filepath
                                                   (etree_tostring ext True new_root) of
                                              Inl e \<Rightarrow> (Some e, w2)
                                            | Inr w3 \<Rightarrow> (None, w3)))))))))"

text \<open>
  What the walk over the items accumulates: the flag and the script file name of lines
  232-233 and the two lists of lines 234-235, whose entries are the dictionaries of lines
  364 and 483.
\<close>

record dir_entry =
  dir_c4zDir :: string
  dir_recurse :: bool
  dir_name :: string

record file_entry =
  file_c4zDir :: string
  file_name :: string

record resolution =
  c4zDriverXmlFound :: bool
  c4zScriptFile :: "string option"
  c4zDirs :: "dir_entry list"
  c4zFiles :: "file_entry list"

text \<open>
  The global \<open>squishLua\<close> (lines 465 and 469): line 28 declares it and nothing assigns
  it, the manifest's flag being held by the local \<^verbatim>\<open>squish_lua\<close>.
\<close>

definition squishLua :: "error + bool" where
  "squishLua = Inl (NameError ''squishLua'')"

text \<open>Lines 383-473: the item is the driver descriptor.\<close>

definition driver_xml_item ::
  "externals \<Rightarrow> packager \<Rightarrow> string \<Rightarrow> string \<Rightarrow> bool \<Rightarrow> string \<Rightarrow> resolution \<Rightarrow> world
     \<Rightarrow> (error + resolution) \<times> world" where
  "driver_xml_item ext self root_directory_path driver_type c4i item_filepath st w =
     (let st1 = st\<lparr>c4zDriverXmlFound := True\<rparr> in
      case GetEncryptFilename ext self w item_filepath of
        Inl e \<Rightarrow> (Inl e, w)
      | Inr script_file \<Rightarrow>
          (let st2 = st1\<lparr>c4zScriptFile := script_file\<rparr> in
           case inject_documentation ext self root_directory_path driver_type item_filepath w of
             (Some e, w1) \<Rightarrow> (Inl e, w1)
           | (None, w1) \<Rightarrow>
               (case squishLua of
                  Inl e \<Rightarrow> (Inl e, w1)
                | Inr squish \<Rightarrow>
                    (case (if squish then Squish ext self root_directory_path w1 else (None, w1)) of
                       (Some e, w2) \<Rightarrow> (Inl e, w2)
                     | (None, w2) \<Rightarrow>
                         if c4i \<and> \<not> squish
                         then (Inl (Exception
                                 ''You are attempting to build a driver of type c4i, but squishLua is set to false in the project file/manifest.  This needs to be set to true.''),
                               CleanupTmpFile self root_directory_path w2)
                         else (Inr st2, w2)))))"


text \<open>Lines 346-364: a directory item.\<close>

definition dir_item ::
  "packager \<Rightarrow> string \<Rightarrow> element \<Rightarrow> string option \<Rightarrow> resolution \<Rightarrow> world
     \<Rightarrow> (error + resolution) \<times> world" where
  "dir_item self root_directory_path item_xml_element item_name st w =
     (case item_name of
        None \<Rightarrow> (Inl (TypeError ''join''), w)
      | Some name \<Rightarrow>
          (let directory_path = join root_directory_path name in
           if \<not> exists w directory_path then
             (Inl (Exception (''DriverPackager: Error, manifest dir Item '' @ name
                                @ '' does not exist.'')),
              CleanupTmpFile self root_directory_path w)
           else
             (let recurse = recurse_of item_xml_element;
                  c4zDir = (case attrib_get item_xml_element ''c4zDir'' of
                              None \<Rightarrow> [] | Some d \<Rightarrow> d)
              in (Inr (st\<lparr>c4zDirs := c4zDirs st
                          @ [\<lparr>dir_c4zDir = c4zDir, dir_recurse = recurse, dir_name = name\<rparr>]\<rparr>),
                  w))))"

text \<open>Lines 366-483: a file item.\<close>

definition file_item ::
  "externals \<Rightarrow> packager \<Rightarrow> string \<Rightarrow> string \<Rightarrow> bool \<Rightarrow> element \<Rightarrow> string option
     \<Rightarrow> resolution \<Rightarrow> world \<Rightarrow> (error + resolution) \<times> world" where
  "file_item ext self root_directory_path driver_type c4i item_xml_element item_name0 st w =
     (case item_name0 of
        None \<Rightarrow> (Inl (TypeError ''join''), w)
      | Some name0 \<Rightarrow>
          (let item_name = file_item_name (c4zScriptFile st) name0;
               item_filepath = join root_directory_path item_name
           in if \<not> exists w item_filepath then
                (Inl (Exception (''DriverPackager: Error, manifest file Item '' @ item_name
                                   @ '' does not exist in '' @ root_directory_path)),
                 CleanupTmpFile self root_directory_path w)
              else
                (case (if item_name = ''driver.xml''
                       then driver_xml_item ext self root_directory_path driver_type c4i
                              item_filepath st w
                       else (Inr st, w)) of
                   (Inl e, w1) \<Rightarrow> (Inl e, w1)
                 | (Inr st1, w1) \<Rightarrow>
                     (let c4zDir = (case attrib_get item_xml_element ''c4zDir'' of
                                      None \<Rightarrow> [] | Some d \<Rightarrow> d)
                      in if item_name = ''driver.xml'' \<and> \<not> c4i then (Inr st1, w1)
                         else (Inr (st1\<lparr>c4zFiles := c4zFiles st1
                                      @ [\<lparr>file_c4zDir = c4zDir, file_name = item_name\<rparr>]\<rparr>),
                               w1)))))"

text \<open>
  One turn of the loop over the items (lines 313-483). Lines 325 and 332 raise when the
  attribute is present.
\<close>

definition process_item ::
  "externals \<Rightarrow> packager \<Rightarrow> string \<Rightarrow> string \<Rightarrow> bool \<Rightarrow> element \<Rightarrow> resolution \<Rightarrow> world
     \<Rightarrow> (error + resolution) \<times> world" where
  "process_item ext self root_directory_path driver_type c4i item_xml_element st w =
     (if tag item_xml_element \<noteq> ''Item'' then
        (Inr st, Log self w (''Invalid XML: Found tag '' @ tag item_xml_element
                               @ '', should be Item''))
      else
        (let item_type = attrib_get item_xml_element ''type'' in
         if item_type \<noteq> None then
           (Inl (Exception ''DriverPackager: Invalid XML: Missing tag Item subtag type''),
            CleanupTmpFile self root_directory_path w)
         else
           (let item_name = attrib_get item_xml_element ''name'' in
            if item_name \<noteq> None then
              (Inl (Exception ''DriverPackager: Invalid XML: Missing tag Item subtag name''),
               CleanupTmpFile self root_directory_path w)
            else if item_excluded item_xml_element then (Inr st, w)
            else if item_type = Some ''dir'' then
              dir_item self root_directory_path item_xml_element item_name st w
            else if item_type = Some ''file'' then
              file_item ext self root_directory_path driver_type c4i item_xml_element item_name
                st w
            else (Inr st, w))))"

fun process_items ::
  "externals \<Rightarrow> packager \<Rightarrow> string \<Rightarrow> string \<Rightarrow> bool \<Rightarrow> element list \<Rightarrow> resolution \<Rightarrow> world
     \<Rightarrow> (error + resolution) \<times> world" where
  "process_items ext self root_directory_path driver_type c4i [] st w = (Inr st, w)"
| "process_items ext self root_directory_path driver_type c4i (item_xml_element # rest) st w =
     (case process_item ext self root_directory_path driver_type c4i item_xml_element st w of
        (Inl e, w1) \<Rightarrow> (Inl e, w1)
      | (Inr st1, w1) \<Rightarrow>
          process_items ext self root_directory_path driver_type c4i rest st1 w1)"

text \<open>Lines 297-310: the backup of \<^verbatim>\<open>driver.lua\<close> and the two lines appended to it.\<close>

definition allow_execute_block :: "string \<Rightarrow> world \<Rightarrow> error + world" where
  "allow_execute_block root_directory_path w =
     (let w1 = print w ''C4:AllowExecute(true) being added to file'';
          original_lua_driver_filepath = join root_directory_path ''driver.lua'';
          temporary_lua_driver_filepath = join root_directory_path ''driver.lua.tmp''
      in case copyfile w1 original_lua_driver_filepath temporary_lua_driver_filepath of
           Inl e \<Rightarrow> Inl e
         | Inr w2 \<Rightarrow>
             write_file True w2 original_lua_driver_filepath
               ([CHR 0x0A] @ ''C4:AllowExecute(true)'' @ [CHR 0x0A]
                @ [CHR 0x0A] @ ''gIsDevelopmentVersionOfDriver = true'' @ [CHR 0x0A]))"

text \<open>
  More names bound nowhere: \<open>driverName\<close> and \<open>driverType\<close> (line 265; the attributes
  are held by \<^verbatim>\<open>driver_name\<close> and \<^verbatim>\<open>driver_type\<close>) and \<open>c4zName\<close> (line 494; the file
  name is held by \<^verbatim>\<open>c4z_filename\<close>).
\<close>

definition driverName :: "error + string" where
  "driverName = Inl (NameError ''driverName'')"

definition driverType :: "error + string" where
  "driverType = Inl (NameError ''driverType'')"

definition c4zName :: error where
  "c4zName = NameError ''c4zName''"

text \<open>
  \<^verbatim>\<open>ParseXml\<close>, lines 231-494. The result is the exception raised, the packager and the
  world. Line 494 reads \<open>c4zName\<close>, so no call gets past it: the model ends there, and
  the loop over the post-package commands (lines 579-599) is \<open>postpackage_commands\<close>
  above.
\<close>

definition ParseXml ::
  "externals \<Rightarrow> packager \<Rightarrow> element \<Rightarrow> string \<Rightarrow> world \<Rightarrow> error option \<times> packager \<times> world" where
  "ParseXml ext self xml_root_element root_directory_path w =
     (if tag xml_root_element \<noteq> ''Driver'' then
        (Some (Exception ''DriverPackager: Invalid XML: Missing tag Driver''), self, w)
      else
        (case attrib_get xml_root_element ''type'' of
           None \<Rightarrow> (Some (Exception ''DriverPackager: Invalid XML: Missing tag type''), self, w)
         | Some driver_type \<Rightarrow>
             (let driver_name = attrib_get xml_root_element ''name'' in
              if driver_name \<noteq> None then
                (Some (Exception ''DriverPackager: Invalid XML: Missing tag name''), self, w)
              else
                (let squish_lua = squish_lua_of xml_root_element;
                     w1 = w\<lparr>c4z_squishLua := squish_lua\<rparr>;
                     c4i = (if driver_type = ''c4i'' then True else False);
                     self1 = (if c4i then self\<lparr>bytes_io := None\<rparr> else self);
                     w2 = w1\<lparr>c4z_c4i := c4i\<rparr>
                 in case driverName of
                      Inl e \<Rightarrow> (Some e, self1, w2)
                    | Inr name \<Rightarrow>
                  (case driverType of
                      Inl e \<Rightarrow> (Some e, self1, w2)
                    | Inr type \<Rightarrow>
                  (let c4z_filename = name @ ''.'' @ type in
                   case (case find_child xml_root_element ''PrepackageCommands'' of
                           None \<Rightarrow> (None, w2)
                         | Some prepackage_command_xml_elements \<Rightarrow>
                             prepackage_commands ext self1
                               (children prepackage_command_xml_elements) w2) of
                     (Some e, w3) \<Rightarrow> (Some e, self1, w3)
                   | (None, w3) \<Rightarrow>
                  (let item_xml_elements = find_child xml_root_element ''Items'' in
                   if item_xml_elements \<noteq> None then
                     (Some (Exception ''DriverPackager: Invalid XML: Missing tag Items''), self1, w3)
                   else
                  (case (if allow_execute self1 then allow_execute_block root_directory_path w3
                         else Inr w3) of
                     Inl e \<Rightarrow> (Some e, self1, w3)
                   | Inr w4 \<Rightarrow>
                  (case item_xml_elements of
                     None \<Rightarrow> (Some (TypeError ''NoneType object is not iterable''), self1, w4)
                   | Some items \<Rightarrow>
                  (case process_items ext self1 root_directory_path driver_type c4i
                          (children items)
                          \<lparr>c4zDriverXmlFound = False, c4zScriptFile = Some [],
                           c4zDirs = [], c4zFiles = []\<rparr> w4 of
                     (Inl e, w5) \<Rightarrow> (Some e, self1, w5)
                   | (Inr st, w5) \<Rightarrow>
                  (if \<not> c4zDriverXmlFound st then
                     (Some (Exception
                        ''DriverPackager: Error, manifest file Item driver.xml was not found.''),
                      self1, w5)
                   else
                  (case UpdateDriverXml ext self1 (join root_directory_path ''driver.xml'') w5 of
                     (Inl e, w6) \<Rightarrow> (Some e, self1, w6)
                   | (Inr self2, w6) \<Rightarrow> (Some c4zName, self2, w6)))))))))))))"

text \<open>
  \<^verbatim>\<open>CreateFromManifest\<close> (lines 153-178): the return code, 255 for every exception of
  \<^verbatim>\<open>ParseXml\<close> and 0 when it returns. A manifest that cannot be read gives the \<^verbatim>\<open>errno\<close>
  of lxml's \<^verbatim>\<open>OSError\<close>, which is \<^verbatim>\<open>None\<close>; one that cannot be parsed gives the error's
  \<^verbatim>\<open>code\<close>.
\<close>

definition CreateFromManifest ::
  "externals \<Rightarrow> packager \<Rightarrow> string \<Rightarrow> world \<Rightarrow> int option \<times> packager \<times> world" where
  "CreateFromManifest ext self manifest_xml_filepath w =
     (case parse_file ext w manifest_xml_filepath of
        Inl e \<Rightarrow>
          (case e of
             ParseError _ \<Rightarrow>
               (Some (parse_error_code ext), self,
                Log self w (''DriverPackager: Invalid XML ('' @ manifest_xml_filepath @ '')''))
           | _ \<Rightarrow> (None, self, Log self w (error_str e)))
      | Inr manifest_xml_root_element \<Rightarrow>
          (case ParseXml ext self manifest_xml_root_element (source_directory_path self) w of
             (Some exception, self1, w1) \<Rightarrow>
               (Some 255, self1, Log self1 w1 (error_str exception))
           | (None, self1, w1) \<Rightarrow> (Some 0, self1, w1)))"

section \<open>Sample inputs\<close>

text \<open>
  A small process: working directory \<open>/home\<close>, a source tree \<open>/src\<close> holding a driver
  descriptor, a directory and a manifest that names both, an encoding that decodes
  every file, and tools that succeed (the shell command \<open>true\<close> exits with 0, every
  other one with 256).
\<close>

definition sample_driver_xml :: element where
  "sample_driver_xml =
     Element ''devicedata'' [] None
       [Element ''version'' [] (Some ''1'') [],
        Element ''config'' [] None
          [Element ''documentation'' [(''textfile'', ''readme.txt'')] None []]]"

definition sample_manifest :: element where
  "sample_manifest =
     Element ''Driver'' [(''type'', ''c4z''), (''name'', ''sample'')] None
       [Element ''Items'' [] None
          [Element ''Item'' [(''type'', ''file''), (''name'', ''driver.xml'')] None [],
           Element ''Item'' [(''type'', ''dir''), (''name'', ''www'')] None []]]"

definition sample_world :: world where
  "sample_world =
     \<lparr>cwd = ''/home'',
      environ = [''PATH'' \<mapsto> ''/usr/bin''],
      fs = map_of [([], Dir), ([''home''], Dir), ([''src''], Dir),
                   ([''src'', ''driver.xml''], File ''DRIVER''),
                   ([''src'', ''driver.lua''], File ''LUA''),
                   ([''src'', ''www''], Dir),
                   ([''src'', ''sample.c4zproj''], File ''MANIFEST'')],
      stdout = [],
      c4z_squishLua = False,
      c4z_c4i = False,
      decodes = (\<lambda>contents. True)\<rparr>"

definition sample_externals :: externals where
  "sample_externals =
     \<lparr>etree_parse = map_of [(''DRIVER'', sample_driver_xml), (''MANIFEST'', sample_manifest)],
      etree_tostring = (\<lambda>pretty_print e. ''XML''),
      os_system = (\<lambda>command w. (if command = ''true'' then 0 else 256, w)),
      check_call = (\<lambda>command w. (Exit 0, w)),
      sys_frozen = False,
      executable_directory_path = ''/opt/python'',
      current_file_directory_path = ''/opt/packager'',
      GetSquishyOutputFile = (\<lambda>directory. Some ''driver.lua.squished''),
      timestamp = ''01/01/2020 12:00 PM'',
      parse_error_code = 1\<rparr>"

definition sample_packager :: packager where
  "sample_packager =
     \<lparr>verbose = True,
      source_directory_path = ''/src'',
      destination_directory_path = ''/out'',
      manifest_xml_filename = None,
      bytes_io = Some [],
      unzip = False,
      allow_execute = False,
      update_modified = False,
      driver_version = Some ''2.0''\<rparr>"



lemma lower_true: "lower ''true'' = ''true''"
  by (simp add: lower_def lower_char_def)

section \<open>Boolean attributes of the manifest\<close>

text \<open>
  Claim C10. The manifest attributes \<open>squishLua\<close>, \<open>exclude\<close> and \<open>recurse\<close> are read as
  true exactly when the attribute is present with the literal lowercase value \<open>true\<close>;
  every other value, and an absent attribute, is read as false.
\<close>

theorem manifest_booleans_literal_true:
  "squish_lua_of e = (attrib_get e ''squishLua'' = Some ''true'')
   \<and> item_excluded e = (attrib_get e ''exclude'' = Some ''true'')
   \<and> recurse_of e = (attrib_get e ''recurse'' = Some ''true'')"
  by (simp add: squish_lua_of_def item_excluded_def recurse_of_def lower_true)

theorem manifest_booleans_literal_true_witness:
  "squish_lua_of (Element ''Driver'' [(''squishLua'', ''true'')] None [])
   \<and> \<not> squish_lua_of (Element ''Driver'' [(''squishLua'', ''True'')] None [])
   \<and> \<not> squish_lua_of (Element ''Driver'' [(''squishLua'', ''1'')] None [])
   \<and> \<not> squish_lua_of (Element ''Driver'' [] None [])
   \<and> item_excluded (Element ''Item'' [(''exclude'', ''true'')] None [])
   \<and> \<not> item_excluded (Element ''Item'' [(''exclude'', ''yes'')] None [])
   \<and> \<not> item_excluded (Element ''Item'' [] None [])
   \<and> recurse_of (Element ''Item'' [(''recurse'', ''true'')] None [])
   \<and> \<not> recurse_of (Element ''Item'' [(''recurse'', ''TRUE'')] None [])
   \<and> \<not> recurse_of (Element ''Item'' [] None [])"
  using manifest_booleans_literal_true [of "Element ''Driver'' [(''squishLua'', ''true'')] None []"]
        manifest_booleans_literal_true [of "Element ''Driver'' [(''squishLua'', ''True'')] None []"]
        manifest_booleans_literal_true [of "Element ''Driver'' [(''squishLua'', ''1'')] None []"]
        manifest_booleans_literal_true [of "Element ''Driver'' [] None []"]
        manifest_booleans_literal_true [of "Element ''Item'' [(''exclude'', ''true'')] None []"]
        manifest_booleans_literal_true [of "Element ''Item'' [(''exclude'', ''yes'')] None []"]
        manifest_booleans_literal_true [of "Element ''Item'' [] None []"]
        manifest_booleans_literal_true [of "Element ''Item'' [(''recurse'', ''true'')] None []"]
        manifest_booleans_literal_true [of "Element ''Item'' [(''recurse'', ''TRUE'')] None []"]
  by (simp add: attrib_get_def)

section \<open>Printing and logging change standard output only\<close>

lemma print_fields [simp]:
  "cwd (print w l) = cwd w" "environ (print w l) = environ w" "fs (print w l) = fs w"
  "c4z_squishLua (print w l) = c4z_squishLua w" "c4z_c4i (print w l) = c4z_c4i w"
  "decodes (print w l) = decodes w"
  by (simp_all add: print_def)

lemma Log_fields [simp]:
  "cwd (Log self w l) = cwd w" "environ (Log self w l) = environ w" "fs (Log self w l) = fs w"
  "c4z_squishLua (Log self w l) = c4z_squishLua w" "c4z_c4i (Log self w l) = c4z_c4i w"
  "decodes (Log self w l) = decodes w"
  by (simp_all add: Log_def)

lemma resolve_print [simp]: "resolve (print w l) p = resolve w p"
  by (simp add: resolve_def)

lemma resolve_Log [simp]: "resolve (Log self w l) p = resolve w p"
  by (simp add: resolve_def)

lemma realpath_print [simp]: "realpath (print w l) p = realpath w p"
  by (simp add: realpath_def)

lemma realpath_Log [simp]: "realpath (Log self w l) p = realpath w p"
  by (simp add: realpath_def)

lemma stat_print [simp]: "stat (print w l) p = stat w p"
  by (simp add: stat_def split: option.splits)

lemma stat_Log [simp]: "stat (Log self w l) p = stat w p"
  by (simp add: stat_def split: option.splits)

section \<open>The source squisher\<close>

text \<open>
  Every call of \<open>Squish\<close> raises: without \<open>PATH\<close> or without the root directory it
  fails at lines 86 or 91, and otherwise the unbound \<open>oldPath\<close> of lines 108 and 117
  stops it before the \<^verbatim>\<open>try\<close> of line 131. The external tool is never started.
\<close>

lemma Squish_raises: "fst (Squish ext self root_directory_path w) \<noteq> None"
  by (simp add: Squish_def oldPath_def Let_def split: option.splits sum.splits)

text \<open>The environment is as before the call: line 117 fails before it assigns.\<close>

lemma Squish_environ: "environ (snd (Squish ext self root_directory_path w)) = environ w"
  by (auto simp add: Squish_def oldPath_def Let_def chdir_def
      split: option.splits sum.splits node.splits)

text \<open>
  When \<open>PATH\<close> is set and the root directory exists, the call raises \<^verbatim>\<open>NameError\<close>
  after line 91 has changed the working directory and outside the \<^verbatim>\<open>try\<close> whose
  \<^verbatim>\<open>finally\<close> would restore it: the process is left in the root directory.
\<close>

lemma Squish_cwd:
  assumes "environ w ''PATH'' = Some v"
    and "realpath w root_directory_path = Some q" and "fs w q = Some Dir"
  shows "fst (Squish ext self root_directory_path w) = Some (NameError ''oldPath'')
         \<and> cwd (snd (Squish ext self root_directory_path w)) = abs_string q"
  using assms
  by (simp add: Squish_def oldPath_def Let_def chdir_def)

text \<open>
  Claim C1 says that after every call of \<open>Squish\<close>, returning or raising, the working
  directory and \<open>PATH\<close> are what they were before. On the sample process, started in
  \<open>/home\<close> and asked to squish \<open>/src\<close>, the call raises \<^verbatim>\<open>NameError\<close> for \<open>oldPath\<close> and
  leaves the working directory at \<open>/src\<close>; \<open>PATH\<close> is unchanged.
\<close>

theorem Squish_leaves_root_directory:
  "fst (Squish sample_externals sample_packager ''/src'' sample_world)
     = Some (NameError ''oldPath'')
   \<and> cwd sample_world = ''/home''
   \<and> cwd (snd (Squish sample_externals sample_packager ''/src'' sample_world)) = ''/src''
   \<and> environ (snd (Squish sample_externals sample_packager ''/src'' sample_world)) ''PATH''
     = environ sample_world ''PATH''"
  by (simp add: Squish_def oldPath_def Let_def chdir_def realpath_def
      abs_string_def sample_world_def sample_packager_def sample_externals_def)

section \<open>Validation of the manifest root\<close>

text \<open>
  No call of \<open>ParseXml\<close> returns: each path through lines 237-265 ends in a
  \<^verbatim>\<open>raise\<close> or in the unbound \<open>driverName\<close>.
\<close>

lemma ParseXml_raises: "fst (ParseXml ext self xml_root_element root_directory_path w) \<noteq> None"
  by (simp add: ParseXml_def driverName_def Let_def split: option.splits)

text \<open>
  It raises before anything outside the program's own variables has changed, the two
  flags of \<^verbatim>\<open>build_c4z\<close> apart: file system, working directory, environment and
  output are those of the start.
\<close>

lemma ParseXml_world:
  "fs (snd (snd (ParseXml ext self xml_root_element root_directory_path w))) = fs w
   \<and> cwd (snd (snd (ParseXml ext self xml_root_element root_directory_path w))) = cwd w
   \<and> environ (snd (snd (ParseXml ext self xml_root_element root_directory_path w))) = environ w
   \<and> stdout (snd (snd (ParseXml ext self xml_root_element root_directory_path w))) = stdout w"
  by (simp add: ParseXml_def driverName_def Let_def split: option.splits)

text \<open>A root without \<open>type\<close> is rejected by line 245.\<close>

lemma ParseXml_untyped:
  assumes "tag xml_root_element = ''Driver''"
    and "attrib_get xml_root_element ''type'' = None"
  shows "ParseXml ext self xml_root_element root_directory_path w
         = (Some (Exception ''DriverPackager: Invalid XML: Missing tag type''), self, w)"
  using assms by (simp add: ParseXml_def)

text \<open>
  A root with \<open>type\<close> and without \<open>name\<close> passes line 249 and fails at line 265; a root
  with both is rejected by line 250, whose test is \<^verbatim>\<open>if driver_name_specified\<close>.
\<close>

lemma ParseXml_unnamed:
  assumes "tag xml_root_element = ''Driver''"
    and "attrib_get xml_root_element ''type'' = Some t"
    and "attrib_get xml_root_element ''name'' = None"
  shows "fst (ParseXml ext self xml_root_element root_directory_path w)
         = Some (NameError ''driverName'')"
  using assms by (simp add: ParseXml_def driverName_def Let_def)

lemma ParseXml_named:
  assumes "tag xml_root_element = ''Driver''"
    and "attrib_get xml_root_element ''type'' = Some t"
    and "attrib_get xml_root_element ''name'' = Some n"
  shows "ParseXml ext self xml_root_element root_directory_path w
         = (Some (Exception ''DriverPackager: Invalid XML: Missing tag name''), self, w)"
  using assms by (simp add: ParseXml_def)

text \<open>
  Claim C2 says that a manifest without \<open>type\<close> or without \<open>name\<close> fails before any file
  system change, and that with both present the presence validation does not fail. The
  sample manifest has both, \<open>type="c4z"\<close> and \<open>name="sample"\<close>: \<open>ParseXml\<close> raises
  the exception of line 250, "Missing tag 'name'", and \<open>CreateFromManifest\<close> returns 255.
\<close>

theorem ParseXml_rejects_present_name:
  "attrib_get sample_manifest ''type'' = Some ''c4z''
   \<and> attrib_get sample_manifest ''name'' = Some ''sample''
   \<and> fst (ParseXml sample_externals sample_packager sample_manifest ''/src'' sample_world)
     = Some (Exception ''DriverPackager: Invalid XML: Missing tag name'')
   \<and> fst (CreateFromManifest sample_externals sample_packager ''/src/sample.c4zproj'' sample_world)
     = Some 255"
  by (simp add: ParseXml_def CreateFromManifest_def parse_file_def read_file_def stat_def
      realpath_def attrib_get_def sample_manifest_def sample_world_def
      sample_externals_def sample_packager_def)

lemma lookup_print [simp]: "lookup (print w l) p = lookup w p"
  by (simp add: lookup_def split: option.splits)

lemma lookup_Log [simp]: "lookup (Log self w l) p = lookup w p"
  by (simp add: lookup_def split: option.splits)

lemma read_file_Log [simp]: "read_file (Log self w l) p = read_file w p"
  by (simp add: read_file_def)

section \<open>Pre-package and post-package commands\<close>

text \<open>
  A pre-package command that exits with a status other than 0 is passed over in silence:
  when no command exits with 0, the loop of lines 272-288 raises nothing, whatever the
  commands are.
\<close>

lemma prepackage_nonzero:
  assumes "\<And>command w. fst (os_system ext command w) \<noteq> 0"
    and "\<forall>c \<in> set commands. text_of c \<noteq> None"
  shows "fst (prepackage_commands ext self commands w) = None"
  using assms(2)
proof (induction commands arbitrary: w)
  case Nil
  then show ?case by simp
next
  case (Cons c cs)
  show ?case
  proof (cases "tag c = ''PrepackageCommand''")
    case False
    then show ?thesis using Cons by (simp add: Let_def)
  next
    case True
    from Cons.prems obtain t where t: "text_of c = Some t" by auto
    obtain rc w2 where r:
      "os_system ext (replace_char CHR ''/'' CHR ''/'' (replace_char CHR 0x5C CHR ''/'' t))
         (print_tag_text w c) = (rc, w2)"
      by (cases "os_system ext (replace_char CHR ''/'' CHR ''/'' (replace_char CHR 0x5C CHR ''/'' t))
                   (print_tag_text w c)")
    have "rc \<noteq> 0"
      using assms(1) [of "replace_char CHR ''/'' CHR ''/'' (replace_char CHR 0x5C CHR ''/'' t)"
                         "print_tag_text w c"] r
      by simp
    then show ?thesis using True t r Cons by (simp add: Let_def)
  qed
qed

text \<open>The exception of line 288 is raised by the command that exits with 0.\<close>

lemma prepackage_zero:
  assumes "tag c = ''PrepackageCommand''" and "text_of c = Some t"
    and "fst (os_system ext (replace_char CHR ''/'' CHR ''/'' (replace_char CHR 0x5C CHR ''/'' t))
                (print_tag_text w c)) = 0"
  shows "fst (prepackage_commands ext self (c # cs) w)
         = Some (Exception ''Failed to execute prepackage command.'')"
proof -
  obtain rc w2 where r:
    "os_system ext (replace_char CHR ''/'' CHR ''/'' (replace_char CHR 0x5C CHR ''/'' t))
       (print_tag_text w c) = (rc, w2)"
    by (cases "os_system ext (replace_char CHR ''/'' CHR ''/'' (replace_char CHR 0x5C CHR ''/'' t))
                 (print_tag_text w c)")
  with assms(3) have "rc = 0" by simp
  with r assms(1,2) show ?thesis by (simp add: Let_def)
qed

text \<open>The post-package loop never raises on a command that has text.\<close>

lemma postpackage_no_raise:
  assumes "\<forall>c \<in> set commands. text_of c \<noteq> None"
  shows "fst (postpackage_commands ext self commands w) = None"
  using assms
proof (induction commands arbitrary: w)
  case Nil
  then show ?case by simp
next
  case (Cons c cs)
  from Cons.prems obtain t where t: "text_of c = Some t" by auto
  show ?case using Cons t by (simp add: Let_def split: prod.splits)
qed

text \<open>
  Claim C3 says that a pre-package or post-package command with a non-zero exit status
  has its failure logged, and only logged, the build going on. With the sample tools
  (\<open>false\<close> exits with 256, \<open>true\<close> with 0) and a verbose packager:
  \<^item> the pre-package command \<open>false\<close> leaves only the echo of line 274 on the output
    and no word of its failure;
  \<^item> the pre-package command \<open>true\<close> raises the exception of line 288;
  \<^item> the post-package command \<open>false\<close> is reported as an invalid tag by line 588 and
    not run;
  \<^item> under another tag the command \<open>true\<close> is run and answered with the message of
    line 599, the command \<open>false\<close> with nothing.
\<close>

theorem command_failure_not_logged:
  "prepackage_commands sample_externals sample_packager
     [Element ''PrepackageCommand'' [] (Some ''false'') []] sample_world
   = (None, sample_world\<lparr>stdout := [''PrepackageCommand false'']\<rparr>)
   \<and> prepackage_commands sample_externals sample_packager
       [Element ''PrepackageCommand'' [] (Some ''true'') []] sample_world
     = (Some (Exception ''Failed to execute prepackage command.''),
        sample_world\<lparr>stdout := [''PrepackageCommand true'']\<rparr>)
   \<and> postpackage_commands sample_externals sample_packager
       [Element ''PostpackageCommand'' [] (Some ''false'') []] sample_world
     = (None, sample_world\<lparr>stdout :=
          [''PostpackageCommand false'',
           ''Invalid XML: Found tag PostpackageCommand, should be PostpackageCommand'']\<rparr>)
   \<and> postpackage_commands sample_externals sample_packager
       [Element ''Other'' [] (Some ''true'') [], Element ''Other'' [] (Some ''false'') []]
       sample_world
     = (None, sample_world\<lparr>stdout :=
          [''Other true'', ''Failed to execute postpackage command.'', ''Other false'']\<rparr>)"
  by (simp add: Let_def print_tag_text_def print_def Log_def replace_char_def
      sample_externals_def sample_packager_def sample_world_def)

section \<open>The text file of the documentation\<close>

text \<open>
  When the referenced text file cannot be opened, lines 422-431 log the failure and then
  raise the same error from the \<^verbatim>\<open>finally\<close> block.
\<close>

lemma read_textfile_missing:
  assumes "read_file w (join root_directory_path textfile) = Inl e"
  shows "fst (read_textfile self w root_directory_path textfile) = Inl e"
  using assms by (simp add: read_textfile_def Let_def)

text \<open>
  Claim C4 says that a missing or unreadable text file named by the \<open>textfile\<close> attribute
  is logged and never fatal. The sample descriptor names \<open>readme.txt\<close>, which the sample
  source tree does not hold: reading it raises \<^verbatim>\<open>FileNotFoundError\<close>, and so do the
  documentation step and the file item of \<open>driver.xml\<close> that contain it.
\<close>

theorem missing_textfile_raises:
  "lookup sample_world ''/src/readme.txt'' = None
   \<and> fst (read_textfile sample_packager sample_world ''/src'' ''readme.txt'')
     = Inl (FileNotFoundError ''/src/readme.txt'')
   \<and> fst (inject_documentation sample_externals sample_packager ''/src'' ''c4z''
            ''/src/driver.xml'' sample_world)
     = Some (FileNotFoundError ''/src/readme.txt'')
   \<and> fst (file_item sample_externals sample_packager ''/src'' ''c4z'' False
            (Element ''Item'' [(''type'', ''file''), (''name'', ''driver.xml'')] None [])
            (Some ''driver.xml'')
            \<lparr>c4zDriverXmlFound = False, c4zScriptFile = Some [], c4zDirs = [], c4zFiles = []\<rparr>
            sample_world)
     = Inl (FileNotFoundError ''/src/readme.txt'')"
  by (simp add: read_textfile_def inject_documentation_def file_item_def driver_xml_item_def
      GetEncryptFilename_def file_item_name_def exists_def findall_path_def findall_def
      parse_file_def copyfile_def write_file_def read_file_def lookup_def resolve_def
      stat_def realpath_def components_def join_def attrib_get_def Let_def Log_def print_def
      sample_driver_xml_def sample_externals_def sample_packager_def sample_world_def)

section \<open>Updating the descriptor\<close>

text \<open>
  With a version to set, \<open>UpdateDriverXml\<close> fails on every descriptor: a missing file, an
  unparsable one, a missing \<open>version\<close> node or the unbound \<open>driverVersion\<close> of line
  633 each end in the exception of line 645. The file system is left as it was.
\<close>

lemma UpdateDriverXml_version:
  assumes "driver_version self = Some v" and "v \<noteq> []"
  shows "fst (UpdateDriverXml ext self driver_xml_filepath w)
           = Inl (Exception ''Unable to update driver.xml'')
         \<and> fs (snd (UpdateDriverXml ext self driver_xml_filepath w)) = fs w"
  using assms
  by (auto simp add: UpdateDriverXml_def UpdateDriverXml_try_def driverVersion_def
      dateModified_def Let_def split: sum.splits option.splits prod.splits if_splits)

text \<open>So it does when the modification date is to be updated (line 614).\<close>

lemma UpdateDriverXml_modified:
  assumes "update_modified self"
  shows "fst (UpdateDriverXml ext self driver_xml_filepath w)
           = Inl (Exception ''Unable to update driver.xml'')"
  using assms
  by (auto simp add: UpdateDriverXml_def UpdateDriverXml_try_def dateModified_def Let_def
      split: sum.splits option.splits prod.splits if_splits)

text \<open>
  Claim C6 says that after \<open>UpdateDriverXml\<close> with a supplied version string the
  serialised descriptor, parsed again, has that string as its \<open>version\<close> text. The
  sample descriptor has the \<open>version\<close> text \<open>1\<close> and the sample packager the version
  \<open>2.0\<close>: the call raises "Unable to update driver.xml", having logged the
  \<^verbatim>\<open>NameError\<close> for \<open>driverVersion\<close>, and nothing is serialised.
\<close>

theorem UpdateDriverXml_version_fails:
  "driver_version sample_packager = Some ''2.0''
   \<and> parse_file sample_externals sample_world ''/src/driver.xml'' = Inr sample_driver_xml
   \<and> map text_of (findall sample_driver_xml ''version'') = [Some ''1'']
   \<and> UpdateDriverXml sample_externals sample_packager ''/src/driver.xml'' sample_world
     = (Inl (Exception ''Unable to update driver.xml''),
        sample_world\<lparr>stdout := [''name driverVersion is not defined'']\<rparr>)"
  by (simp add: UpdateDriverXml_def UpdateDriverXml_try_def driverVersion_def find_child_def
      findall_def parse_file_def read_file_def stat_def realpath_def Let_def
      Log_def print_def
      sample_driver_xml_def sample_externals_def sample_packager_def sample_world_def)

section \<open>Items of the manifest\<close>

text \<open>An item that has a \<open>type\<close> attribute is rejected by line 325.\<close>

lemma process_item_typed:
  assumes "tag item = ''Item''" and "attrib_get item ''type'' = Some t"
  shows "fst (process_item ext self root_directory_path driver_type c4i item st w)
         = Inl (Exception ''DriverPackager: Invalid XML: Missing tag Item subtag type'')"
  using assms by (simp add: process_item_def)

text \<open>
  Claim C8 says that an item with \<open>type\<close> and \<open>name\<close> whose \<open>type\<close> is neither \<open>dir\<close> nor
  \<open>file\<close> is skipped without an exception and the walk goes on. The item
  \<open><Item type="font" name="x"/>\<close> raises the exception of line 327, "Missing tag
  'Item' subtag 'type'", and the walk over a list that starts with it stops there.
\<close>

theorem unknown_item_type_raises:
  "fst (process_item sample_externals sample_packager ''/src'' ''c4z'' False
          (Element ''Item'' [(''type'', ''font''), (''name'', ''x'')] None [])
          \<lparr>c4zDriverXmlFound = False, c4zScriptFile = Some [], c4zDirs = [], c4zFiles = []\<rparr>
          sample_world)
     = Inl (Exception ''DriverPackager: Invalid XML: Missing tag Item subtag type'')
   \<and> fst (process_items sample_externals sample_packager ''/src'' ''c4z'' False
            [Element ''Item'' [(''type'', ''font''), (''name'', ''x'')] None [],
             Element ''Item'' [] None []]
            \<lparr>c4zDriverXmlFound = False, c4zScriptFile = Some [], c4zDirs = [], c4zFiles = []\<rparr>
            sample_world)
     = Inl (Exception ''DriverPackager: Invalid XML: Missing tag Item subtag type'')"
  by (simp add: process_item_def attrib_get_def CleanupTmpFile_def sample_packager_def)

section \<open>Creating directories\<close>



























text \<open>
  The outcome of one turn of the walk, on the code as written: an element that is not an
  \<open>Item\<close> is passed over, an item with a \<open>type\<close> or a \<open>name\<close> attribute raises, and an
  item with neither reaches the exclusion test and the type dispatch, where its missing
  type matches neither \<open>dir\<close> nor \<open>file\<close>. No turn resolves anything.
\<close>

lemma process_item_outcome:
  "fst (process_item ext self root_directory_path driver_type c4i item st w)
   = (if tag item \<noteq> ''Item'' then Inr st
      else if attrib_get item ''type'' \<noteq> None
      then Inl (Exception ''DriverPackager: Invalid XML: Missing tag Item subtag type'')
      else if attrib_get item ''name'' \<noteq> None
      then Inl (Exception ''DriverPackager: Invalid XML: Missing tag Item subtag name'')
      else Inr st)"
  by (simp add: process_item_def Let_def)

lemma process_item_world:
  "fs (snd (process_item ext self root_directory_path driver_type c4i item st w)) = fs w
   \<or> fst (process_item ext self root_directory_path driver_type c4i item st w) \<noteq> Inr st"
  by (simp add: process_item_def Let_def)

text \<open>The outcome of the whole walk does not depend on the world it runs in.\<close>

lemma process_items_outcome:
  "fst (process_items ext self root_directory_path driver_type c4i items st w)
   = fst (process_items ext self root_directory_path driver_type c4i items st w')"
proof (induction items arbitrary: w w')
  case Nil
  show ?case by simp
next
  case (Cons item items)
  obtain r w1 where a: "process_item ext self root_directory_path driver_type c4i item st w = (r, w1)"
    by (cases "process_item ext self root_directory_path driver_type c4i item st w")
  obtain r' w1' where b: "process_item ext self root_directory_path driver_type c4i item st w' = (r', w1')"
    by (cases "process_item ext self root_directory_path driver_type c4i item st w'")
  have rr: "r' = r"
    using process_item_outcome [of ext self root_directory_path driver_type c4i item st w]
          process_item_outcome [of ext self root_directory_path driver_type c4i item st w'] a b
    by simp
  show ?case
  proof (cases r)
    case (Inl e)
    with a b rr show ?thesis by simp
  next
    case (Inr st1)
    have "st1 = st"
      using process_item_outcome [of ext self root_directory_path driver_type c4i item st w] a Inr
      by (auto split: if_splits)
    with a b rr Inr Cons.IH [of w1 w1'] show ?thesis by simp
  qed
qed

text \<open>A walk that completes leaves the flag, the script file name and both lists as they were.\<close>

lemma process_items_resolve_nothing:
  "fst (process_items ext self root_directory_path driver_type c4i items st w) = Inr st'
   \<Longrightarrow> st' = st"
proof (induction items arbitrary: w)
  case Nil
  then show ?case by simp
next
  case (Cons item items)
  obtain r w1 where a: "process_item ext self root_directory_path driver_type c4i item st w = (r, w1)"
    by (cases "process_item ext self root_directory_path driver_type c4i item st w")
  show ?case
  proof (cases r)
    case (Inl e)
    with a Cons.prems show ?thesis by simp
  next
    case (Inr st1)
    have "st1 = st"
      using process_item_outcome [of ext self root_directory_path driver_type c4i item st w] a Inr
      by (auto split: if_splits)
    with a Inr Cons show ?thesis by simp
  qed
qed

text \<open>
  Claim C7 says that an item whose \<open>exclude\<close> attribute is \<open>true\<close> appears in neither
  resolved list and that its absence from the file system never makes resolution fail.
  The item \<open><Item type="file" name="gone.bin" exclude="true"/>\<close> is excluded and
  \<open>/src/gone.bin\<close> is not on disk: its turn raises the exception of line 327, "Missing
  tag 'Item' subtag 'type'", before the exclusion test of line 342 is reached, and the
  walk over a list that holds it stops there. With the file on disk the turn raises the
  same exception.
\<close>

theorem excluded_item_raises:
  "item_excluded
     (Element ''Item'' [(''type'', ''file''), (''name'', ''gone.bin''), (''exclude'', ''true'')]
        None [])
   \<and> \<not> exists sample_world ''/src/gone.bin''
   \<and> fst (process_item sample_externals sample_packager ''/src'' ''c4z'' False
            (Element ''Item'' [(''type'', ''file''), (''name'', ''gone.bin''), (''exclude'', ''true'')]
               None [])
            \<lparr>c4zDriverXmlFound = False, c4zScriptFile = Some [], c4zDirs = [], c4zFiles = []\<rparr>
            sample_world)
     = Inl (Exception ''DriverPackager: Invalid XML: Missing tag Item subtag type'')
   \<and> fst (process_items sample_externals sample_packager ''/src'' ''c4z'' False
            [Element ''Item'' [] None [],
             Element ''Item'' [(''type'', ''file''), (''name'', ''gone.bin''), (''exclude'', ''true'')]
               None []]
            \<lparr>c4zDriverXmlFound = False, c4zScriptFile = Some [], c4zDirs = [], c4zFiles = []\<rparr>
            sample_world)
     = Inl (Exception ''DriverPackager: Invalid XML: Missing tag Item subtag type'')
   \<and> fst (process_item sample_externals sample_packager ''/src'' ''c4z'' False
            (Element ''Item'' [(''type'', ''file''), (''name'', ''gone.bin''), (''exclude'', ''true'')]
               None [])
            \<lparr>c4zDriverXmlFound = False, c4zScriptFile = Some [], c4zDirs = [], c4zFiles = []\<rparr>
            (sample_world\<lparr>fs := (fs sample_world)([''src'', ''gone.bin''] \<mapsto> File ''x'')\<rparr>))
     = Inl (Exception ''DriverPackager: Invalid XML: Missing tag Item subtag type'')"
  by (simp add: process_item_def item_excluded_def lower_true attrib_get_def CleanupTmpFile_def
      exists_def stat_def realpath_def sample_packager_def sample_world_def)

section \<open>The encrypted-file suffix\<close>

text \<open>\<open>rfind\<close> is the index of the last occurrence, or \<open>-1\<close>.\<close>

lemma rfind_from_append:
  "rfind_from c (xs @ ys) i r = rfind_from c ys (i + int (length xs)) (rfind_from c xs i r)"
proof (induction xs arbitrary: i r)
  case Nil
  show ?case by simp
next
  case (Cons x xs)
  then show ?case by (simp add: add.assoc)
qed

lemma rfind_from_absent: "c \<notin> set ys \<Longrightarrow> rfind_from c ys i r = r"
  by (induction ys arbitrary: i) auto

lemma rfind_from_bounds:
  "r < i \<Longrightarrow> r \<le> rfind_from c xs i r \<and> rfind_from c xs i r < i + int (length xs)"
proof (induction xs arbitrary: i r)
  case Nil
  then show ?case by simp
next
  case (Cons x xs)
  have "(if x = c then i else r) < i + 1" using Cons.prems by simp
  from Cons.IH [OF this] Cons.prems show ?case by (auto split: if_splits)
qed

lemma rfind_bounds: "- 1 \<le> rfind p c \<and> rfind p c < int (length p)"
  using rfind_from_bounds [of "- 1" 0 c p] by (simp add: rfind_def)

text \<open>
  \<open>splitext\<close> cuts its argument in two. On a name that ends in \<open>.encrypted\<close> it cuts
  the suffix off when some character of the last path component before the suffix is
  not a dot, and nothing otherwise.
\<close>

lemma splitext_concat: "splitext p = (a, b) \<Longrightarrow> p = a @ b"
  by (auto simp add: splitext_def Let_def split: if_splits)

lemma splitext_encrypted:
  "splitext (stem @ ''.encrypted'')
   = (if list_ex (\<lambda>c. c \<noteq> CHR ''.'') (basename stem) then (stem, ''.encrypted'')
      else (stem @ ''.encrypted'', []))"
proof -
  let ?p = "stem @ ''.encrypted''"
  have sep: "rfind ?p CHR ''/'' = rfind stem CHR ''/''"
    by (simp add: rfind_def rfind_from_append)
  have dot: "rfind ?p CHR ''.'' = int (length stem)"
    by (simp add: rfind_def rfind_from_append)
  from rfind_bounds [of stem "CHR ''/''"]
  have b: "- 1 \<le> rfind stem CHR ''/''" "rfind stem CHR ''/'' < int (length stem)" by auto
  define n where "n = nat (rfind stem CHR ''/'' + 1)"
  have n: "n \<le> length stem" using b by (simp add: n_def)
  have len: "nat (int (length stem) - (rfind stem CHR ''/'' + 1)) = length stem - n"
    using b by (simp add: n_def)
  have seg: "take (length stem - n) (drop n ?p) = drop n stem" using n by simp
  show ?thesis
    using b(2) seg
    by (simp add: splitext_def Let_def sep dot len basename_def flip: n_def)
qed

text \<open>
  The name a file item is resolved under: the given one, or the given one less its
  \<open>.encrypted\<close> suffix.
\<close>

lemma file_item_name_detected:
  assumes "script \<noteq> None" and "script \<noteq> Some []"
  shows "file_item_name script (stem @ ''.encrypted'')
         = (if list_ex (\<lambda>c. c \<noteq> CHR ''.'') (basename stem) then stem else stem @ ''.encrypted'')"
  using assms by (simp add: file_item_name_def splitext_encrypted)

lemma file_item_name_undetected:
  assumes "script = None \<or> script = Some []"
  shows "file_item_name script name = name"
  using assms by (auto simp add: file_item_name_def)

lemma file_item_name_cases:
  "file_item_name script name = name \<or> name = file_item_name script name @ ''.encrypted''"
  by (auto simp add: file_item_name_def split: prod.splits dest: splitext_concat)

text \<open>
  The path of the descriptor (lines 383-473) never completes: what does not fail before
  ends at the unbound \<open>squishLua\<close> of line 465. No turn of the walk hands a detected
  script file name on to a later item.
\<close>

lemma driver_xml_item_never_returns:
  "fst (driver_xml_item ext self root_directory_path driver_type c4i item_filepath st w) \<noteq> Inr st'"
  by (simp add: driver_xml_item_def squishLua_def Let_def split: sum.splits prod.splits option.splits)

text \<open>
  Claim C5 says that a file item whose name ends in \<open>.encrypted\<close>, processed after an
  encryption-marked script file name was detected, is resolved under the name without
  the suffix, and under its literal name when none was detected. The sample source tree
  holds \<open>driver.lua\<close>, the name lines 369-372 would make of \<open>driver.lua.encrypted\<close> with
  the script file \<open>driver.lua\<close>. The item
  \<open><Item type="file" name="driver.lua.encrypted"/>\<close> gets to none of these lines: its turn
  raises the exception of line 327, "Missing tag 'Item' subtag 'type'", and the walk over
  the descriptor's item followed by it stops at the first of the two with the same
  exception. Neither name is checked or entered in the file list.
\<close>

theorem encrypted_item_raises:
  "exists sample_world ''/src/driver.lua''
   \<and> file_item_name (Some ''driver.lua'') ''driver.lua.encrypted'' = ''driver.lua''
   \<and> fst (process_item sample_externals sample_packager ''/src'' ''c4z'' False
            (Element ''Item'' [(''type'', ''file''), (''name'', ''driver.lua.encrypted'')] None [])
            \<lparr>c4zDriverXmlFound = False, c4zScriptFile = Some [], c4zDirs = [], c4zFiles = []\<rparr>
            sample_world)
     = Inl (Exception ''DriverPackager: Invalid XML: Missing tag Item subtag type'')
   \<and> fst (process_items sample_externals sample_packager ''/src'' ''c4z'' False
            [Element ''Item'' [(''type'', ''file''), (''name'', ''driver.xml'')] None [],
             Element ''Item'' [(''type'', ''file''), (''name'', ''driver.lua.encrypted'')] None []]
            \<lparr>c4zDriverXmlFound = False, c4zScriptFile = Some [], c4zDirs = [], c4zFiles = []\<rparr>
            sample_world)
     = Inl (Exception ''DriverPackager: Invalid XML: Missing tag Item subtag type'')"
  by (simp add: process_item_def attrib_get_def CleanupTmpFile_def file_item_name_def
      splitext_def rfind_def Let_def exists_def stat_def realpath_def
      sample_packager_def sample_world_def)

end
